theory Spec2Isabelle
  imports Complex_Main
begin

section \<open>Python values used by the program\<close>

text \<open>
  A Python \<open>str\<close> is modelled as a \<open>string\<close>: one \<open>char\<close> of the model stands for one
  character of the Python string, so that \<open>length\<close> is Python's \<open>len\<close>. Python's \<open>int\<close>
  is \<open>int\<close>. In \<open>estimate_image_tokens\<close> a Python \<open>float\<close> is the real number it denotes:
  the only products formed there, \<open>525 * 1.75\<close> and \<open>150 * 1.75\<close>, are exact in binary
  floating point. In \<open>calculate_token_difference\<close> the floats are binary64 values and every
  operation rounds, as defined below.
\<close>

datatype py_error = KeyError | ZeroDivisionError | OverflowError

text \<open>The line feed character, the apostrophe and the paragraph separator \<open>'\n\n'\<close>.\<close>

abbreviation LF :: char where
  "LF \<equiv> CHR 0x0A"

abbreviation APOS :: char where
  "APOS \<equiv> CHR 0x27"

abbreviation blank_line :: string where
  "blank_line \<equiv> [LF, LF]"

text \<open>\<open>a // b\<close> on integers: floor division, \<open>ZeroDivisionError\<close> when \<open>b\<close> is zero.\<close>

definition py_floordiv :: "int \<Rightarrow> int \<Rightarrow> py_error + int" where
  "py_floordiv a b = (if b = 0 then Inl ZeroDivisionError else Inr (a div b))"

text \<open>\<open>int(x)\<close> on a float: truncation towards zero.\<close>

definition py_int :: "real \<Rightarrow> int" where
  "py_int x = (if 0 \<le> x then \<lfloor>x\<rfloor> else \<lceil>x\<rceil>)"

subsection \<open>Binary64 floats\<close>

text \<open>
  Rounding to the nearest integer, a tie going to the even one.
\<close>

definition round_half_even :: "real \<Rightarrow> int" where
  "round_half_even y =
     (let f = \<lfloor>y\<rfloor> in
      if y - of_int f < 1 / 2 then f
      else if 1 / 2 < y - of_int f then f + 1
      else if even f then f else f + 1)"

text \<open>
  The binary64 values around a positive \<open>x\<close> are the multiples of \<open>b64_spacing x\<close>: 53
  significant bits from the exponent of \<open>x\<close>, and the spacing \<open>2 powi (- 1074)\<close> of the
  subnormal values below \<open>2 powi (- 1022)\<close>. \<open>b64_nearest x\<close> is the multiple nearest to
  \<open>x\<close>, a tie going to the even one; the exponent is not bounded above here, and a result
  of magnitude \<open>2 ^ 1024\<close> or more is what overflows.
\<close>

definition b64_exponent :: "real \<Rightarrow> int" where
  "b64_exponent x = max \<lfloor>log 2 x\<rfloor> (- 1022)"

definition b64_spacing :: "real \<Rightarrow> real" where
  "b64_spacing x = 2 powi (b64_exponent x - 52)"

definition b64_nearest :: "real \<Rightarrow> real" where
  "b64_nearest x =
     (if x = 0 then 0
      else sgn x * (of_int (round_half_even (\<bar>x\<bar> / b64_spacing \<bar>x\<bar>)) * b64_spacing \<bar>x\<bar>))"

text \<open>
  A float is a finite value (\<open>Finite 0\<close> is \<open>0.0\<close>), the negative zero, or an infinity.
\<close>

datatype py_float = Finite real | MinusZero | PlusInf | MinusInf

text \<open>
  \<open>a / b\<close> on integers: \<open>ZeroDivisionError\<close> when \<open>b\<close> is zero; otherwise the quotient
  correctly rounded, \<open>OverflowError\<close> when the rounded quotient is too large for a float,
  and a zero result carrying the sign of the quotient (\<open>0 / -5\<close> is \<open>-0.0\<close>).
\<close>

definition py_truediv :: "int \<Rightarrow> int \<Rightarrow> py_error + py_float" where
  "py_truediv a b =
     (if b = 0 then Inl ZeroDivisionError
      else (let q = b64_nearest (real_of_int a / real_of_int b) in
            if 2 ^ 1024 \<le> \<bar>q\<bar> then Inl OverflowError
            else if q = 0 \<and> (a < 0) \<noteq> (b < 0) then Inr MinusZero
            else Inr (Finite q)))"

text \<open>
  \<open>x * y\<close> for a float \<open>x\<close> and a positive finite float \<open>y\<close> (the program multiplies by
  \<open>100\<close>, converted to \<open>100.0\<close>): the product rounded; an overflow gives an infinity and
  raises nothing.
\<close>

definition float_times :: "py_float \<Rightarrow> real \<Rightarrow> py_float" where
  "float_times x y =
     (case x of
        Finite r \<Rightarrow>
          (let p = b64_nearest (r * y) in
           if 2 ^ 1024 \<le> \<bar>p\<bar> then (if 0 < p then PlusInf else MinusInf)
           else if p = 0 \<and> r < 0 then MinusZero
           else Finite p)
      | MinusZero \<Rightarrow> MinusZero
      | PlusInf \<Rightarrow> PlusInf
      | MinusInf \<Rightarrow> MinusInf)"

subsection \<open>Strings\<close>

text \<open>\<open>str(n)\<close> for a non-negative integer: its decimal digits.\<close>

fun py_str :: "nat \<Rightarrow> string" where
  "py_str n =
     (if n < 10 then [''0123456789'' ! n]
      else py_str (n div 10) @ [''0123456789'' ! (n mod 10)])"

declare py_str.simps [simp del]

text \<open>
  \<open>s.split('\n\n')\<close>: the pieces of \<open>s\<close> between the occurrences of the separator, found
  from the left and not overlapping. The result is never empty: \<open>''.split('\n\n')\<close> is
  \<open>['']\<close>.
\<close>

fun split_blank_line :: "string \<Rightarrow> string list" where
  "split_blank_line [] = [[]]"
| "split_blank_line [c] = [[c]]"
| "split_blank_line (c # d # cs) =
     (if c = LF \<and> d = LF then [] # split_blank_line cs
      else (case split_blank_line (d # cs) of
              [] \<Rightarrow> [[c]]
            | p # ps \<Rightarrow> (c # p) # ps))"

text \<open>\<open>'\n\n'.join(xs)\<close> on strings; the join of the empty list is the empty string.\<close>

fun join_blank_line :: "string list \<Rightarrow> string" where
  "join_blank_line [] = []"
| "join_blank_line [x] = x"
| "join_blank_line (x # y # ys) = x @ blank_line @ join_blank_line (y # ys)"

text \<open>
  A list the program builds can hold \<open>None\<close> among its strings. \<open>str_items xs i\<close> gives the
  strings of \<open>xs\<close>, or the index (counted from \<open>i\<close>) of its first \<open>None\<close>; \<open>'\n\n'.join(xs)\<close>
  raises \<open>TypeError\<close> at the first item that is not a string.
\<close>

fun str_items :: "string option list \<Rightarrow> nat \<Rightarrow> nat + string list" where
  "str_items [] i = Inr []"
| "str_items (None # xs) i = Inl i"
| "str_items (Some s # xs) i =
     (case str_items xs (Suc i) of Inl j \<Rightarrow> Inl j | Inr ys \<Rightarrow> Inr (s # ys))"

definition py_join_blank_line :: "string option list \<Rightarrow> string + string" where
  "py_join_blank_line xs =
     (case str_items xs 0 of
        Inl i \<Rightarrow> Inl (''sequence item '' @ py_str i @ '': expected str instance, NoneType found'')
      | Inr ys \<Rightarrow> Inr (join_blank_line ys))"

text \<open>What \<open>str(e)\<close> is for the \<open>TypeError\<close> that \<open>len(None)\<close> raises.\<close>

definition len_of_None :: string where
  "len_of_None = ''object of type '' @ [APOS] @ ''NoneType'' @ [APOS] @ '' has no len()''"

section \<open>config.py\<close>

definition CHARS_PER_TOKEN :: int where
  "CHARS_PER_TOKEN = 4"

definition IMAGE_TOKEN_BASE :: "string \<rightharpoonup> int" where
  "IMAGE_TOKEN_BASE = [''high'' \<mapsto> 525, ''standard'' \<mapsto> 150]"

definition IMAGE_TOKEN_MULTIPLIER :: real where
  "IMAGE_TOKEN_MULTIPLIER = 1.75"

section \<open>src/utils/token_estimator.py\<close>

definition estimate_from_string :: "string \<Rightarrow> py_error + int" where
  "estimate_from_string text = py_floordiv (int (length text)) CHARS_PER_TOKEN"

text \<open>
  \<open>IMAGE_TOKEN_BASE.get(detail, IMAGE_TOKEN_BASE["standard"])\<close>: the default is looked up
  first, by subscript, which raises \<open>KeyError\<close> on a missing key.
\<close>

definition estimate_image_tokens :: "string \<Rightarrow> py_error + int" where
  "estimate_image_tokens detail =
     (case IMAGE_TOKEN_BASE ''standard'' of
        None \<Rightarrow> Inl KeyError
      | Some dflt \<Rightarrow>
          (let base_tokens = (case IMAGE_TOKEN_BASE detail of Some b \<Rightarrow> b | None \<Rightarrow> dflt)
           in Inr (py_int (real_of_int base_tokens * IMAGE_TOKEN_MULTIPLIER))))"

definition calculate_token_difference :: "int \<Rightarrow> int \<Rightarrow> py_error + py_float \<times> int" where
  "calculate_token_difference estimated actual =
     (if estimated \<le> 0 then Inr (Finite 0, 0)
      else (case py_truediv (actual - estimated) estimated of
              Inl e \<Rightarrow> Inl e
            | Inr q \<Rightarrow>
                (let diff_percent = float_times q 100;
                     diff_absolute = actual - estimated
                 in Inr (diff_percent, diff_absolute))))"

section \<open>src/prompts/prompt_templates.py\<close>

definition cleanup_instructions :: string where
  "cleanup_instructions =
     [LF] @ ''This document has been created by an LLM by scanning images of a PDF and forms part of a larger document.''
     @ [LF] @ ''Ensure the formatting is coherent and the structure is correct.''
     @ [LF] @ ''Remove any mention of \"markdown\" from the top and don't add anything new.''
     @ [LF]"

definition get_cleanup_prompt :: "string \<Rightarrow> string" where
  "get_cleanup_prompt document_content = cleanup_instructions @ document_content @ [LF]"

section \<open>src/main.py\<close>

definition estimate_tokens_from_string :: "string \<Rightarrow> int" where
  "estimate_tokens_from_string text = int (length text) div 4"

text \<open>The constant local to \<open>text_tidy_up\<close>.\<close>

definition MAX_CHUNK_SIZE :: int where
  "MAX_CHUNK_SIZE = 6000"

subsection \<open>The completion service\<close>

text \<open>
  A request either raises an exception \<open>e\<close>, of which the program reads \<open>str(e)\<close>, or
  returns a response. Of a response \<open>text_tidy_up\<close> reads two things.
  \<^item> \<open>usage.total_tokens\<close>, guarded by \<open>hasattr(response, 'usage')\<close>: the attribute can be
    absent, present with the value \<open>None\<close>, or present with a total.
  \<^item> \<open>choices[0].message.content\<close>: the read can raise (no choice in the response, for
    one), and the content can be \<open>None\<close> or a string.

  The service is a parameter of the model: \<open>client k msg\<close> is the outcome of the request
  with message \<open>msg\<close> when \<open>k\<close> requests were issued before it, so that every pattern of
  outcomes is some \<open>client\<close>. The other arguments of a request (the model, the
  temperature and the token cap) are constants of config.py, and what the program prints is
  not part of the model.
\<close>

datatype usage_attr = UsageAbsent | UsageNone | UsageTotal int

datatype content_attr = ContentRaises string | ContentNone | ContentStr string

record response =
  content :: content_attr
  usage :: usage_attr

type_synonym client = "nat \<Rightarrow> string \<Rightarrow> string + response"

text \<open>
  \<open>response.usage.total_tokens if hasattr(response, 'usage') else 0\<close>: reading
  \<open>total_tokens\<close> of \<open>None\<close> raises \<open>AttributeError\<close>.
\<close>

definition usage_total_tokens :: "response \<Rightarrow> string + int" where
  "usage_total_tokens resp =
     (case usage resp of
        UsageAbsent \<Rightarrow> Inr 0
      | UsageNone \<Rightarrow>
          Inl ([APOS] @ ''NoneType'' @ [APOS] @ '' object has no attribute ''
               @ [APOS] @ ''total_tokens'' @ [APOS])
      | UsageTotal t \<Rightarrow> Inr t)"

text \<open>\<open>response.choices[0].message.content\<close>.\<close>

definition message_content :: "response \<Rightarrow> string + string option" where
  "message_content resp =
     (case content resp of
        ContentRaises e \<Rightarrow> Inl e
      | ContentNone \<Rightarrow> Inr None
      | ContentStr s \<Rightarrow> Inr (Some s))"

text \<open>
  \<open>try: body except Exception as e: handler\<close>, for a body that changes no variable the
  handler or the code after it reads. A computation is \<open>Inl e\<close> when it raises and \<open>Inr v\<close>
  when it returns \<open>v\<close>.
\<close>

definition try_except :: "(string + 'a) \<Rightarrow> (string \<Rightarrow> string + 'a) \<Rightarrow> string + 'a" where
  "try_except body handler = (case body of Inl e \<Rightarrow> handler e | Inr v \<Rightarrow> Inr v)"

subsection \<open>Building the chunks (lines 143 to 163)\<close>

text \<open>
  The state of the \<open>for paragraph in paragraphs\<close> loop is
  \<open>(chunks, current_chunk, current_chunk_tokens)\<close>.
\<close>

fun build_chunks_loop ::
  "string list \<Rightarrow> string list \<times> string list \<times> int \<Rightarrow> string list \<times> string list \<times> int" where
  "build_chunks_loop [] st = st"
| "build_chunks_loop (paragraph # rest) (chunks, current_chunk, current_chunk_tokens) =
     (let paragraph_tokens = estimate_tokens_from_string paragraph in
      if current_chunk_tokens + paragraph_tokens > MAX_CHUNK_SIZE
      then build_chunks_loop rest
             (chunks @ [join_blank_line current_chunk], [paragraph], paragraph_tokens)
      else build_chunks_loop rest
             (chunks, current_chunk @ [paragraph], current_chunk_tokens + paragraph_tokens))"

definition build_chunks :: "string list \<Rightarrow> string list" where
  "build_chunks paragraphs =
     (case build_chunks_loop paragraphs ([], [], 0) of
        (chunks, current_chunk, current_chunk_tokens) \<Rightarrow>
          if current_chunk \<noteq> [] then chunks @ [join_blank_line current_chunk] else chunks)"

definition split_into_chunks :: "string \<Rightarrow> string list" where
  "split_into_chunks full_document = build_chunks (split_blank_line full_document)"

subsection \<open>Processing the chunks (lines 168 to 193)\<close>

text \<open>
  The variables of the loop, with \<open>sent\<close>, the messages given to the service so far, in
  order. An item of \<open>processed_chunks\<close> is a string or \<open>None\<close>.
\<close>

record process_state =
  processed_chunks :: "string option list"
  total_prompt_tokens :: int
  total_actual_tokens :: int
  sent :: "string list"

definition chunk_request :: "nat \<Rightarrow> nat \<Rightarrow> string \<Rightarrow> string" where
  "chunk_request i n chunk =
     get_cleanup_prompt chunk @ [LF] @ ''This is part '' @ py_str i @ '' of '' @ py_str n @ ''.''"

text \<open>
  One iteration of \<open>for i, chunk in enumerate(chunks, 1)\<close>, statement by statement. The
  body of the \<open>try\<close> changes the totals before it reads the content, and what it has
  changed stays changed when a later statement raises: \<open>handler\<close> is applied to the state
  reached at the raise. Appending a content that is \<open>None\<close> raises nothing.
\<close>

definition process_chunk :: "client \<Rightarrow> nat \<Rightarrow> nat \<Rightarrow> string \<Rightarrow> process_state \<Rightarrow> process_state" where
  "process_chunk client n i chunk st =
     (let msg = chunk_request i n chunk;
          st1 = st\<lparr>sent := sent st @ [msg]\<rparr>;
          handler = (\<lambda>s. s\<lparr>processed_chunks := processed_chunks s @ [Some chunk]\<rparr>)
      in case client (length (sent st)) msg of
           Inl e \<Rightarrow> handler st1
         | Inr chunk_response \<Rightarrow>
             (case usage_total_tokens chunk_response of
                Inl e \<Rightarrow> handler st1
              | Inr chunk_actual_tokens \<Rightarrow>
                  (let st2 = st1\<lparr>total_actual_tokens :=
                                    total_actual_tokens st1 + chunk_actual_tokens\<rparr>;
                       st3 = st2\<lparr>total_prompt_tokens :=
                                    total_prompt_tokens st2 + estimate_tokens_from_string chunk\<rparr>
                   in case message_content chunk_response of
                        Inl e \<Rightarrow> handler st3
                      | Inr c \<Rightarrow> st3\<lparr>processed_chunks := processed_chunks st3 @ [c]\<rparr>)))"

fun process_chunks_loop ::
  "client \<Rightarrow> nat \<Rightarrow> (nat \<times> string) list \<Rightarrow> process_state \<Rightarrow> process_state" where
  "process_chunks_loop client n [] st = st"
| "process_chunks_loop client n ((i, chunk) # rest) st =
     process_chunks_loop client n rest (process_chunk client n i chunk st)"

definition process_chunks :: "client \<Rightarrow> string list \<Rightarrow> process_state" where
  "process_chunks client chunks =
     process_chunks_loop client (length chunks) (enumerate 1 chunks)
       \<lparr>processed_chunks = [], total_prompt_tokens = 0, total_actual_tokens = 0, sent = []\<rparr>"

subsection \<open>\<open>text_tidy_up\<close>\<close>

text \<open>
  A call either returns the triple \<open>(content, estimated tokens, actual tokens)\<close> or raises;
  \<open>returned\<close> is \<open>Inr\<close> of the triple or \<open>Inl\<close> of the exception that leaves the function.
  \<open>requests\<close> are the messages the call gave to the service, in order.
\<close>

record tidy_result =
  final_content :: string
  estimated_tokens :: int
  actual_tokens :: int

record tidy_run =
  returned :: "string + tidy_result"
  requests :: "string list"

text \<open>
  On the single-shot path every statement after the request is inside the \<open>try\<close>, also
  \<open>len(final_response.choices[0].message.content)\<close>. On the chunked path the join of the
  processed chunks is after the loop, outside every \<open>try\<close>.
\<close>

definition text_tidy_up :: "client \<Rightarrow> string \<Rightarrow> tidy_run" where
  "text_tidy_up client full_document =
     (let prompt_tokens = estimate_tokens_from_string (get_cleanup_prompt full_document) in
      if prompt_tokens \<le> MAX_CHUNK_SIZE
      then \<lparr>returned =
              try_except
                (case client 0 (get_cleanup_prompt full_document) of
                   Inl e \<Rightarrow> Inl e
                 | Inr final_response \<Rightarrow>
                     (case usage_total_tokens final_response of
                        Inl e \<Rightarrow> Inl e
                      | Inr actual \<Rightarrow>
                          (case message_content final_response of
                             Inl e \<Rightarrow> Inl e
                           | Inr c \<Rightarrow>
                               (case c of
                                  None \<Rightarrow> Inl len_of_None
                                | Some s \<Rightarrow>
                                    (let completion_tokens = int (length s) div 4 in
                                     Inr \<lparr>final_content = s,
                                          estimated_tokens = prompt_tokens,
                                          actual_tokens = actual\<rparr>)))))
                (\<lambda>e. Inr \<lparr>final_content =
                             ''Error in tidy up: '' @ e @ blank_line @ ''Raw document content:''
                             @ blank_line @ full_document,
                           estimated_tokens = 0,
                           actual_tokens = 0\<rparr>),
            requests = [get_cleanup_prompt full_document]\<rparr>
      else (let st = process_chunks client (split_into_chunks full_document) in
            \<lparr>returned =
               (case py_join_blank_line (processed_chunks st) of
                  Inl e \<Rightarrow> Inl e
                | Inr joined \<Rightarrow>
                    Inr \<lparr>final_content = joined,
                         estimated_tokens = total_prompt_tokens st,
                         actual_tokens = total_actual_tokens st\<rparr>),
             requests = sent st\<rparr>))"

subsection \<open>The request of a chunk, by its position\<close>

text \<open>
  The request for the chunk at position \<open>k\<close> (counted from 0) of \<open>n\<close> carries the
  annotation ``part \<open>k + 1\<close> of \<open>n\<close>''.
\<close>

definition policy_request :: "nat \<Rightarrow> nat \<times> string \<Rightarrow> string" where
  "policy_request n kc = chunk_request (Suc (fst kc)) n (snd kc)"

text \<open>The sum of the estimates of the paragraphs of a group, as the packing loop adds them.\<close>

abbreviation est_sum :: "string list \<Rightarrow> int" where
  "est_sum g \<equiv> sum_list (map estimate_tokens_from_string g)"

section \<open>Token estimation\<close>

text \<open>
  C6. For every string \<open>s\<close>, both estimators (\<open>TokenEstimator.estimate_from_string\<close> and
  \<open>estimate_tokens_from_string\<close> of main.py) return the floor of \<open>length s / CHARS_PER_TOKEN\<close>
  with \<open>CHARS_PER_TOKEN = 4\<close>; neither fails, and the result is a non-negative integer.
\<close>

theorem estimate_from_string_floor:
  "estimate_from_string s = Inr \<lfloor>real (length s) / real_of_int CHARS_PER_TOKEN\<rfloor>
   \<and> CHARS_PER_TOKEN = 4
   \<and> estimate_tokens_from_string s = \<lfloor>real (length s) / 4\<rfloor>
   \<and> 0 \<le> estimate_tokens_from_string s
   \<and> estimate_from_string s = Inr (estimate_tokens_from_string s)"
proof -
  have fl: "\<lfloor>real (length s) / 4\<rfloor> = int (length s) div 4"
    using floor_divide_of_int_eq [of "int (length s)" 4, where ?'a = real] by simp
  show ?thesis
    by (simp add: estimate_from_string_def estimate_tokens_from_string_def py_floordiv_def
        CHARS_PER_TOKEN_def fl)
qed

text \<open>
  C4 (as amended). For every detail level \<open>d\<close>, \<open>estimate_image_tokens d\<close> is
  \<open>int(IMAGE_TOKEN_BASE[d] * IMAGE_TOKEN_MULTIPLIER)\<close>, the product truncated towards zero:
  918 for \<open>high\<close> (from 918.75) and 262 for \<open>standard\<close> (from 262.5). Any detail other than
  \<open>high\<close> and \<open>standard\<close> gives what \<open>standard\<close> gives, and the function never fails.
\<close>

theorem estimate_image_tokens_truncates:
  "estimate_image_tokens d =
     Inr (py_int (real_of_int (case IMAGE_TOKEN_BASE d of Some b \<Rightarrow> b | None \<Rightarrow> 150)
                  * IMAGE_TOKEN_MULTIPLIER))
   \<and> estimate_image_tokens ''high'' = Inr 918
   \<and> estimate_image_tokens ''standard'' = Inr 262
   \<and> estimate_image_tokens d =
       (if d = ''high'' then estimate_image_tokens ''high''
        else estimate_image_tokens ''standard'')"
  by (simp add: estimate_image_tokens_def IMAGE_TOKEN_BASE_def IMAGE_TOKEN_MULTIPLIER_def
      py_int_def)

text \<open>
  C4 as stated fails at \<open>high\<close>: the base is 525, the product 918.75 rounds to 919, and
  the function returns 918. (\<open>round\<close> rounds halves up; Python's \<open>round\<close> rounds halves
  to even; they agree on 918.75.)
\<close>

theorem estimate_image_tokens_not_rounded:
  "IMAGE_TOKEN_BASE ''high'' = Some 525
   \<and> estimate_image_tokens ''high'' = Inr 918
   \<and> round (real_of_int 525 * IMAGE_TOKEN_MULTIPLIER) = 919
   \<and> estimate_image_tokens ''high'' \<noteq> Inr (round (real_of_int 525 * IMAGE_TOKEN_MULTIPLIER))"
  by (simp add: estimate_image_tokens_def IMAGE_TOKEN_BASE_def IMAGE_TOKEN_MULTIPLIER_def
      py_int_def round_def)

section \<open>The percentage difference\<close>

lemma floor_log2_eq:
  assumes "0 < x" and "2 powi e \<le> x" and "x < 2 powi (e + 1)"
  shows "\<lfloor>log 2 x\<rfloor> = e"
proof -
  have "(2::real) powr (of_int e) = 2 powi e"
    by (simp add: powr_real_of_int')
  moreover have "(2::real) powr (of_int e + 1) = 2 powi (e + 1)"
    using powr_real_of_int' [of 2 "e + 1"] by simp
  ultimately show ?thesis
    using assms floor_log_eq_powr_iff [of x 2 e] by simp
qed

text \<open>How to compute \<open>b64_nearest\<close> at a positive value whose exponent is known.\<close>

lemma b64_nearest_pos:
  assumes "0 < x" and "- 1022 \<le> e" and "2 powi e \<le> x" and "x < 2 powi (e + 1)"
  shows "b64_nearest x = of_int (round_half_even (x / 2 powi (e - 52))) * 2 powi (e - 52)"
  using assms floor_log2_eq [OF assms(1,3,4)]
  by (simp add: b64_nearest_def b64_spacing_def b64_exponent_def)

lemma round_half_even_bounds:
  "\<lfloor>y\<rfloor> \<le> round_half_even y \<and> round_half_even y \<le> \<lfloor>y\<rfloor> + 1"
  by (simp add: round_half_even_def Let_def)

lemma b64_exponent_above:
  assumes "0 < x"
  shows "x < 2 powi (b64_exponent x + 1)"
proof -
  have "x < 2 powr (of_int \<lfloor>log 2 x\<rfloor> + 1)"
    using assms floor_log_eq_powr_iff [of x 2 "\<lfloor>log 2 x\<rfloor>"] by simp
  also have "\<dots> = 2 powi (\<lfloor>log 2 x\<rfloor> + 1)"
    using powr_real_of_int' [of 2 "\<lfloor>log 2 x\<rfloor> + 1"] by simp
  also have "\<dots> \<le> 2 powi (b64_exponent x + 1)"
    by (intro power_int_increasing) (simp_all add: b64_exponent_def)
  finally show ?thesis .
qed

text \<open>Below \<open>2 ^ 1023\<close> nothing rounds up to the overflow threshold.\<close>

lemma b64_nearest_below:
  assumes "0 < x" and "x < 2 ^ 1023"
  shows "\<bar>b64_nearest x\<bar> < 2 ^ 1024"
proof -
  let ?e = "b64_exponent x"
  let ?s = "(2::real) powi (?e - 52)"
  have spos: "0 < ?s" by simp
  have "log 2 x < 1023"
    using assms log_less_iff [of 2 x 1023] by simp
  then have "\<lfloor>log 2 x\<rfloor> < 1023" by linarith
  then have e: "?e \<le> 1022" by (simp add: b64_exponent_def)
  have "x / ?s < 2 powi (?e + 1) / ?s"
    using b64_exponent_above [OF assms(1)] spos by (simp add: divide_strict_right_mono)
  also have "\<dots> = 2 ^ 53"
    by (simp add: power_int_diff power_int_add)
  finally have "x / ?s < 2 ^ 53" .
  then have "\<lfloor>x / ?s\<rfloor> < 2 ^ 53" by (simp add: floor_less_iff)
  then have "round_half_even (x / ?s) \<le> 2 ^ 53"
    using round_half_even_bounds [of "x / ?s"] by linarith
  moreover have "0 \<le> round_half_even (x / ?s)"
    using round_half_even_bounds [of "x / ?s"] assms(1) spos
    by (smt (verit) divide_nonneg_pos zero_le_floor)
  ultimately have "\<bar>of_int (round_half_even (x / ?s)) * ?s\<bar> \<le> 2 ^ 53 * ?s"
    using spos by (simp add: abs_mult mult_right_mono)
  also have "2 ^ 53 * ?s = 2 powi (?e + 1)"
    by (simp add: power_int_diff power_int_add)
  also have "\<dots> \<le> 2 powi 1023"
    using e by (intro power_int_increasing) simp_all
  also have "\<dots> < 2 ^ 1024" by simp
  finally show ?thesis
    using assms(1) by (simp add: b64_nearest_def b64_spacing_def)
qed

text \<open>From \<open>2 ^ 1024\<close> on everything overflows.\<close>

lemma b64_nearest_above:
  assumes "2 ^ 1024 \<le> x"
  shows "2 ^ 1024 \<le> b64_nearest x"
proof -
  have xpos: "0 < x" using assms by (smt (verit) zero_less_power)
  let ?e = "b64_exponent x"
  let ?s = "(2::real) powi (?e - 52)"
  have spos: "0 < ?s" by simp
  have "1024 \<le> log 2 x"
    using assms xpos le_log_iff [of 2 x 1024] by simp
  then have fl: "1024 \<le> \<lfloor>log 2 x\<rfloor>" by linarith
  then have e: "?e = \<lfloor>log 2 x\<rfloor>" by (simp add: b64_exponent_def)
  have "2 powr (of_int \<lfloor>log 2 x\<rfloor>) \<le> x"
    using xpos floor_log_eq_powr_iff [of x 2 "\<lfloor>log 2 x\<rfloor>"] by simp
  then have le: "2 powi ?e \<le> x" using e by (simp add: powr_real_of_int')
  have "(2::real) ^ 52 = 2 powi ?e / ?s" by (simp add: power_int_diff)
  also have "\<dots> \<le> x / ?s" using le spos by (simp add: divide_right_mono)
  finally have "2 ^ 52 \<le> x / ?s" .
  then have "2 ^ 52 \<le> \<lfloor>x / ?s\<rfloor>" by (simp add: le_floor_iff)
  then have "2 ^ 52 \<le> round_half_even (x / ?s)"
    using round_half_even_bounds [of "x / ?s"] by linarith
  then have r: "(2::real) ^ 52 \<le> of_int (round_half_even (x / ?s))"
    by (metis of_int_le_iff of_int_numeral of_int_power)
  have "(2::real) ^ 1024 = 2 powi 1024" by simp
  also have "\<dots> \<le> 2 powi ?e"
    using fl e by (intro power_int_increasing) simp_all
  also have "\<dots> = 2 ^ 52 * ?s" by (simp add: power_int_diff)
  also have "\<dots> \<le> of_int (round_half_even (x / ?s)) * ?s"
    using r spos by (intro mult_right_mono) simp_all
  finally have "2 ^ 1024 \<le> of_int (round_half_even (x / ?s)) * ?s" .
  then show ?thesis using xpos by (simp add: b64_nearest_def b64_spacing_def)
qed

lemma b64_nearest_minus: "b64_nearest (- x) = - b64_nearest x"
  by (simp add: b64_nearest_def sgn_minus)

lemma b64_nearest_abs_below:
  assumes "\<bar>x\<bar> < 2 ^ 1023"
  shows "\<bar>b64_nearest x\<bar> < 2 ^ 1024"
proof (cases "x = 0")
  case True
  then show ?thesis by (simp add: b64_nearest_def)
next
  case False
  show ?thesis
  proof (cases "0 < x")
    case True
    with assms b64_nearest_below [of x] show ?thesis by simp
  next
    case neg: False
    with False assms b64_nearest_below [of "- x"] show ?thesis
      by (simp add: b64_nearest_minus)
  qed
qed

lemma py_truediv_in_range:
  assumes "0 < b" and "\<bar>a\<bar> < 2 ^ 1023"
  shows "\<exists>q. py_truediv a b = Inr q"
proof -
  have b1: "1 \<le> real_of_int b" using assms(1) by simp
  have "\<bar>real_of_int a / real_of_int b\<bar> = \<bar>real_of_int a\<bar> / real_of_int b"
    using assms(1) by simp
  also have "\<dots> \<le> \<bar>real_of_int a\<bar> / 1"
    using b1 by (intro divide_left_mono) simp_all
  also have "\<dots> < 2 ^ 1023"
  proof -
    have "real_of_int \<bar>a\<bar> < real_of_int (2 ^ 1023)"
      using assms(2) by (simp only: of_int_less_iff)
    then show ?thesis by simp
  qed
  finally have "\<bar>b64_nearest (real_of_int a / real_of_int b)\<bar> < 2 ^ 1024"
    by (rule b64_nearest_abs_below)
  then show ?thesis
    using assms(1) by (simp add: py_truediv_def Let_def)
qed

text \<open>
  The two roundings of \<open>(107 - 100) / 100 * 100\<close>: the quotient \<open>7 / 100\<close> has exponent
  \<open>- 4\<close>, and the product lies between 4 and 8.
\<close>

lemma b64_nearest_7_100: "b64_nearest (7 / 100) = 5044031582654956 / 2 ^ 56"
proof -
  have "b64_nearest (7 / 100)
          = of_int (round_half_even ((7 / 100) / 2 powi (- 4 - 52))) * 2 powi (- 4 - 52)"
    by (rule b64_nearest_pos) (simp_all add: power_int_minus)
  also have "\<dots> = 5044031582654956 / 2 ^ 56"
    by (simp add: round_half_even_def power_int_minus Let_def)
  finally show ?thesis .
qed

lemma b64_nearest_7_product:
  "b64_nearest (5044031582654956 / 2 ^ 56 * 100) = 7881299347898369 / 2 ^ 50"
proof -
  have "b64_nearest (5044031582654956 / 2 ^ 56 * 100)
          = of_int (round_half_even ((5044031582654956 / 2 ^ 56 * 100) / 2 powi (2 - 52)))
            * 2 powi (2 - 52)"
    by (rule b64_nearest_pos) (simp_all add: power_int_minus)
  also have "\<dots> = 7881299347898369 / 2 ^ 50"
    by (simp add: round_half_even_def power_int_minus Let_def)
  finally show ?thesis .
qed

text \<open>
  C9 (as amended). \<open>calculate_token_difference\<close> never divides by zero: for every
  \<open>estimated \<le> 0\<close>, and so for \<open>estimated = 0\<close> and \<open>actual = 50\<close>, it returns \<open>(0.0, 0)\<close>
  without dividing. For \<open>estimated > 0\<close> it returns the float
  \<open>(actual - estimated) / estimated * 100\<close>, each operation rounded to binary64, with
  \<open>actual - estimated\<close>, whenever the difference is below \<open>2 ^ 1023\<close> in magnitude. It is
  not total: the division raises \<open>OverflowError\<close> when the quotient is too large for a
  float. The witness is at \<open>(100, 107)\<close>, where the percentage is the float next above 7
  (printed \<open>7.000000000000001\<close>).
\<close>

theorem calculate_token_difference_guarded:
  "calculate_token_difference estimated actual \<noteq> Inl ZeroDivisionError
   \<and> (estimated \<le> 0 \<longrightarrow> calculate_token_difference estimated actual = Inr (Finite 0, 0))
   \<and> calculate_token_difference 0 50 = Inr (Finite 0, 0)
   \<and> (0 < estimated \<longrightarrow> \<bar>actual - estimated\<bar> < 2 ^ 1023 \<longrightarrow>
        (\<exists>q. py_truediv (actual - estimated) estimated = Inr q
           \<and> calculate_token_difference estimated actual
               = Inr (float_times q 100, actual - estimated)))"
proof (intro conjI impI)
  show "calculate_token_difference estimated actual \<noteq> Inl ZeroDivisionError"
    by (simp add: calculate_token_difference_def py_truediv_def Let_def split: sum.splits)
next
  assume "estimated \<le> 0"
  then show "calculate_token_difference estimated actual = Inr (Finite 0, 0)"
    by (simp add: calculate_token_difference_def)
next
  show "calculate_token_difference 0 50 = Inr (Finite 0, 0)"
    by (simp add: calculate_token_difference_def)
next
  assume "0 < estimated" and "\<bar>actual - estimated\<bar> < 2 ^ 1023"
  with py_truediv_in_range [of estimated "actual - estimated"]
  show "\<exists>q. py_truediv (actual - estimated) estimated = Inr q
           \<and> calculate_token_difference estimated actual
               = Inr (float_times q 100, actual - estimated)"
    by (auto simp: calculate_token_difference_def)
qed

theorem calculate_token_difference_guarded_witness:
  "(0::int) \<le> 0
   \<and> calculate_token_difference 0 50 = Inr (Finite 0, 0)
   \<and> (0::int) < 100 \<and> \<bar>107 - 100 :: int\<bar> < 2 ^ 1023
   \<and> py_truediv (107 - 100) 100 = Inr (Finite (5044031582654956 / 2 ^ 56))
   \<and> calculate_token_difference 100 107 = Inr (Finite (7 + 1 / 2 ^ 50), 7)"
proof -
  have q: "py_truediv (107 - 100) 100 = Inr (Finite (5044031582654956 / 2 ^ 56))"
    using b64_nearest_7_100 by (simp add: py_truediv_def Let_def)
  have m: "float_times (Finite (5044031582654956 / 2 ^ 56)) 100 = Finite (7 + 1 / 2 ^ 50)"
    using b64_nearest_7_product by (simp add: float_times_def Let_def)
  from calculate_token_difference_guarded [of 100 107] q m
  have "calculate_token_difference 100 107 = Inr (Finite (7 + 1 / 2 ^ 50), 7)"
    by auto
  with q calculate_token_difference_guarded [of 0 50] show ?thesis by simp
qed

text \<open>
  C9 as stated fails at \<open>estimated = 1\<close> and \<open>actual = 10 ^ 400\<close>: the function is not
  total there, the division raises \<open>OverflowError\<close>.
\<close>

theorem calculate_token_difference_overflow:
  "(0::int) < 1 \<and> calculate_token_difference 1 (10 ^ 400) = Inl OverflowError"
proof -
  have "(2::real) ^ 1024 \<le> 10 ^ 400 - 1" by simp
  then have "2 ^ 1024 \<le> b64_nearest (10 ^ 400 - 1)" by (rule b64_nearest_above)
  then have "2 ^ 1024 \<le> \<bar>b64_nearest (10 ^ 400 - 1)\<bar>" by linarith
  then show ?thesis
    by (simp add: calculate_token_difference_def py_truediv_def Let_def)
qed

section \<open>Splitting into paragraphs and joining\<close>

lemma split_blank_line_not_Nil: "split_blank_line s \<noteq> []"
  by (induction s rule: split_blank_line.induct) (auto split: list.splits)

lemma join_blank_line_Cons:
  "join_blank_line (x # xs) = (if xs = [] then x else x @ blank_line @ join_blank_line xs)"
  by (cases xs) simp_all

lemma join_split_blank_line: "join_blank_line (split_blank_line s) = s"
proof (induction s rule: split_blank_line.induct)
  case 1
  show ?case by simp
next
  case (2 c)
  show ?case by simp
next
  case (3 c d cs)
  show ?case
  proof (cases "c = LF \<and> d = LF")
    case True
    with 3 split_blank_line_not_Nil [of cs] show ?thesis
      by (cases "split_blank_line cs") simp_all
  next
    case False
    with 3 split_blank_line_not_Nil [of "d # cs"] show ?thesis
      by (cases "split_blank_line (d # cs)") (auto simp: join_blank_line_Cons)
  qed
qed

lemma split_blank_line_no_LF: "LF \<notin> set s \<Longrightarrow> split_blank_line s = [s]"
  by (induction s rule: split_blank_line.induct) auto

lemma split_blank_line_append:
  "LF \<notin> set s \<Longrightarrow> split_blank_line (s @ LF # LF # t) = s # split_blank_line t"
proof (induction s)
  case Nil
  show ?case by simp
next
  case (Cons c s)
  then show ?case by (cases s) auto
qed

section \<open>The packing loop groups consecutive paragraphs\<close>

lemma build_chunks_loop_groups:
  assumes "cur \<noteq> []" and "t = est_sum cur" and "length cur = 1 \<or> t \<le> MAX_CHUNK_SIZE"
  shows "\<exists>gs cur'. build_chunks_loop ps (chunks, cur, t)
             = (chunks @ map join_blank_line gs, cur', est_sum cur')
           \<and> concat gs @ cur' = cur @ ps \<and> cur' \<noteq> []
           \<and> (length cur' = 1 \<or> est_sum cur' \<le> MAX_CHUNK_SIZE)
           \<and> (\<forall>g \<in> set gs. g \<noteq> [] \<and> (length g = 1 \<or> est_sum g \<le> MAX_CHUNK_SIZE))"
  using assms
proof (induction ps arbitrary: chunks cur t)
  case Nil
  then show ?case by (intro exI [of _ "[]"] exI [of _ cur]) simp
next
  case (Cons p ps)
  show ?case
  proof (cases "t + estimate_tokens_from_string p > MAX_CHUNK_SIZE")
    case True
    from Cons.IH [of "[p]" "estimate_tokens_from_string p" "chunks @ [join_blank_line cur]"]
    obtain gs cur' where
      h: "build_chunks_loop ps (chunks @ [join_blank_line cur], [p], estimate_tokens_from_string p)
            = ((chunks @ [join_blank_line cur]) @ map join_blank_line gs, cur', est_sum cur')"
         "concat gs @ cur' = [p] @ ps" "cur' \<noteq> []"
         "length cur' = 1 \<or> est_sum cur' \<le> MAX_CHUNK_SIZE"
         "\<forall>g \<in> set gs. g \<noteq> [] \<and> (length g = 1 \<or> est_sum g \<le> MAX_CHUNK_SIZE)"
      by auto
    show ?thesis
      using True h Cons.prems
      by (intro exI [of _ "cur # gs"] exI [of _ cur']) simp
  next
    case False
    from Cons.IH [of "cur @ [p]" "t + estimate_tokens_from_string p" chunks] Cons.prems False
    obtain gs cur' where
      h: "build_chunks_loop ps (chunks, cur @ [p], t + estimate_tokens_from_string p)
            = (chunks @ map join_blank_line gs, cur', est_sum cur')"
         "concat gs @ cur' = (cur @ [p]) @ ps" "cur' \<noteq> []"
         "length cur' = 1 \<or> est_sum cur' \<le> MAX_CHUNK_SIZE"
         "\<forall>g \<in> set gs. g \<noteq> [] \<and> (length g = 1 \<or> est_sum g \<le> MAX_CHUNK_SIZE)"
      by auto
    show ?thesis
      using False h
      by (intro exI [of _ gs] exI [of _ cur']) simp
  qed
qed

lemma build_chunks_groups:
  "\<exists>gs. build_chunks (p # ps) =
          (if MAX_CHUNK_SIZE < estimate_tokens_from_string p
           then [] # map join_blank_line gs else map join_blank_line gs)
      \<and> concat gs = p # ps
      \<and> (\<forall>g \<in> set gs. g \<noteq> [] \<and> (length g = 1 \<or> est_sum g \<le> MAX_CHUNK_SIZE))"
proof -
  let ?e = "estimate_tokens_from_string p"
  obtain c0 where c0: "c0 = (if MAX_CHUNK_SIZE < ?e then [[]] else ([]::string list))" by simp
  have step: "build_chunks_loop (p # ps) ([], [], 0) = build_chunks_loop ps (c0, [p], ?e)"
    by (simp add: c0)
  from build_chunks_loop_groups [of "[p]" ?e ps c0]
  obtain gs cur' where
    h: "build_chunks_loop ps (c0, [p], ?e) = (c0 @ map join_blank_line gs, cur', est_sum cur')"
       "concat gs @ cur' = [p] @ ps" "cur' \<noteq> []"
       "length cur' = 1 \<or> est_sum cur' \<le> MAX_CHUNK_SIZE"
       "\<forall>g \<in> set gs. g \<noteq> [] \<and> (length g = 1 \<or> est_sum g \<le> MAX_CHUNK_SIZE)"
    by auto
  have "build_chunks (p # ps) = c0 @ map join_blank_line (gs @ [cur'])"
    unfolding build_chunks_def step h(1) using h(3) by simp
  with h show ?thesis
    by (intro exI [of _ "gs @ [cur']"]) (simp add: c0)
qed

lemma join_blank_line_append:
  "xs \<noteq> [] \<Longrightarrow> ys \<noteq> [] \<Longrightarrow>
   join_blank_line (xs @ ys) = join_blank_line xs @ blank_line @ join_blank_line ys"
  by (induction xs rule: join_blank_line.induct) (auto simp: join_blank_line_Cons)

lemma join_blank_line_concat:
  "\<forall>g \<in> set gs. g \<noteq> [] \<Longrightarrow>
   join_blank_line (map join_blank_line gs) = join_blank_line (concat gs)"
proof (induction gs)
  case Nil
  show ?case by simp
next
  case (Cons g gs)
  show ?case
  proof (cases "gs = []")
    case True
    then show ?thesis by simp
  next
    case False
    with Cons.prems have "concat gs \<noteq> []" by (cases gs) auto
    with Cons False show ?thesis
      by (simp add: join_blank_line_Cons join_blank_line_append)
  qed
qed

lemma join_build_chunks:
  "join_blank_line (build_chunks (p # ps)) =
     (if MAX_CHUNK_SIZE < estimate_tokens_from_string p
      then blank_line @ join_blank_line (p # ps) else join_blank_line (p # ps))"
proof -
  from build_chunks_groups [of p ps] obtain gs where
    h: "build_chunks (p # ps) =
          (if MAX_CHUNK_SIZE < estimate_tokens_from_string p
           then [] # map join_blank_line gs else map join_blank_line gs)"
       "concat gs = p # ps"
       "\<forall>g \<in> set gs. g \<noteq> [] \<and> (length g = 1 \<or> est_sum g \<le> MAX_CHUNK_SIZE)"
    by blast
  from h(2) have ne: "gs \<noteq> []" by auto
  from h(3) have "join_blank_line (map join_blank_line gs) = join_blank_line (concat gs)"
    by (intro join_blank_line_concat) simp
  with h(1,2) ne show ?thesis
    by (simp add: join_blank_line_Cons)
qed

section \<open>Estimates of concrete documents\<close>

lemma length_cleanup_instructions: "length cleanup_instructions = 245"
  by (simp add: cleanup_instructions_def)

lemma est_replicate: "estimate_tokens_from_string (replicate n c) = int n div 4"
  by (simp add: estimate_tokens_from_string_def)

lemma est_prompt:
  "estimate_tokens_from_string (get_cleanup_prompt D) = (246 + int (length D)) div 4"
  by (simp add: estimate_tokens_from_string_def get_cleanup_prompt_def length_cleanup_instructions)

section \<open>The chunks of a document\<close>

lemma join_split_into_chunks:
  "join_blank_line (split_into_chunks D) =
     (case split_blank_line D of
        [] \<Rightarrow> D
      | p # ps \<Rightarrow> if MAX_CHUNK_SIZE < estimate_tokens_from_string p then blank_line @ D else D)"
proof (cases "split_blank_line D")
  case Nil
  with split_blank_line_not_Nil [of D] show ?thesis by simp
next
  case (Cons p ps)
  have "join_blank_line (p # ps) = D"
    using join_split_blank_line [of D] Cons by simp
  with join_build_chunks [of p ps] Cons show ?thesis
    by (simp add: split_into_chunks_def)
qed

lemma chunk_request_not_cleanup_prompt: "chunk_request i n c \<noteq> get_cleanup_prompt D"
proof
  assume "chunk_request i n c = get_cleanup_prompt D"
  then have "last (chunk_request i n c) = last (get_cleanup_prompt D)" by simp
  then show False by (simp add: chunk_request_def get_cleanup_prompt_def)
qed

lemma split_into_chunks_two_paragraphs:
  "split_into_chunks (replicate 24000 CHR ''a'' @ blank_line @ replicate 24000 CHR ''b'')
     = [replicate 24000 CHR ''a'', replicate 24000 CHR ''b'']"
  by (simp add: split_into_chunks_def split_blank_line_append split_blank_line_no_LF
      build_chunks_def est_replicate MAX_CHUNK_SIZE_def)


section \<open>The requests of \<open>text_tidy_up\<close>\<close>

lemma sent_process_chunk:
  "sent (process_chunk client n i chunk st) = sent st @ [chunk_request i n chunk]"
  by (simp add: process_chunk_def Let_def split: sum.splits)

lemma sent_process_chunks_loop:
  "sent (process_chunks_loop client n (enumerate (Suc j) cs) st)
     = sent st @ map (policy_request n) (enumerate j cs)"
proof (induction cs arbitrary: st j)
  case Nil
  show ?case by simp
next
  case (Cons c cs)
  show ?case
    by (simp add: Cons.IH sent_process_chunk policy_request_def)
qed

lemma requests_text_tidy_up:
  "requests (text_tidy_up client D) =
     (if estimate_tokens_from_string (get_cleanup_prompt D) \<le> MAX_CHUNK_SIZE
      then [get_cleanup_prompt D]
      else map (policy_request (length (split_into_chunks D)))
             (enumerate 0 (split_into_chunks D)))"
  using sent_process_chunks_loop
          [of client "length (split_into_chunks D)" 0 "split_into_chunks D"
              "\<lparr>processed_chunks = [], total_prompt_tokens = 0, total_actual_tokens = 0,
                sent = []\<rparr>"]
  by (simp add: text_tidy_up_def Let_def process_chunks_def)

lemma chunk_requests_not_single_shot:
  "map (policy_request n) (enumerate 0 cs) \<noteq> [get_cleanup_prompt D]"
  by (cases cs) (simp_all add: policy_request_def chunk_request_not_cleanup_prompt)

section \<open>\<open>text_tidy_up\<close> on the single-shot path\<close>

text \<open>
  On the single-shot path the function returns whatever the service does: the statements
  that read the response are inside the \<open>try\<close>, and a \<open>None\<close> content is caught there,
  by \<open>len\<close>.
\<close>

lemma single_shot_returns:
  assumes "estimate_tokens_from_string (get_cleanup_prompt D) \<le> MAX_CHUNK_SIZE"
  shows "\<exists>r. returned (text_tidy_up client D) = Inr r"
  using assms
  by (simp add: text_tidy_up_def try_except_def Let_def split: sum.splits option.splits)

lemma single_shot_request_raises:
  assumes "estimate_tokens_from_string (get_cleanup_prompt D) \<le> MAX_CHUNK_SIZE"
    and "client 0 (get_cleanup_prompt D) = Inl e"
  shows "returned (text_tidy_up client D) =
           Inr \<lparr>final_content = ''Error in tidy up: '' @ e @ blank_line
                                 @ ''Raw document content:'' @ blank_line @ D,
                estimated_tokens = 0, actual_tokens = 0\<rparr>"
  using assms by (simp add: text_tidy_up_def try_except_def Let_def)

section \<open>Partitioning a document into chunks\<close>

text \<open>
  C1. The claim is that joining the chunks of any document with the blank-line separator
  gives the document back. On the code it fails when the first paragraph alone is estimated
  above \<open>MAX_CHUNK_SIZE\<close>: the loop then closes the current chunk while it is still empty
  and emits the empty string as the first chunk (lemma \<open>join_split_into_chunks\<close> has both
  cases). The document of 24004 letters \<open>a\<close> is one paragraph estimated at 6001; it takes
  the chunked path, its chunks are the empty string and the document, and their join is the
  separator followed by the document.
\<close>

theorem round_trip_oversized_first_paragraph:
  "MAX_CHUNK_SIZE < estimate_tokens_from_string (get_cleanup_prompt (replicate 24004 CHR ''a''))
   \<and> split_blank_line (replicate 24004 CHR ''a'') = [replicate 24004 CHR ''a'']
   \<and> split_into_chunks (replicate 24004 CHR ''a'') = [[], replicate 24004 CHR ''a'']
   \<and> join_blank_line (split_into_chunks (replicate 24004 CHR ''a''))
       = blank_line @ replicate 24004 CHR ''a''
   \<and> join_blank_line (split_into_chunks (replicate 24004 CHR ''a''))
       \<noteq> replicate 24004 CHR ''a''"
  by (simp add: est_prompt est_replicate MAX_CHUNK_SIZE_def split_into_chunks_def
      split_blank_line_no_LF build_chunks_def)

text \<open>
  C2. The claim is that the packing step closes the current chunk only when it is not empty,
  so that a document of one paragraph estimated at 8000 tokens gives exactly one chunk, the
  paragraph. On the code the document of 32000 letters \<open>a\<close> (one paragraph, estimated at
  8000) gives two chunks, the first of them empty, and \<open>text_tidy_up\<close> sends a request for
  each: ``part 1 of 2'' with the empty chunk and ``part 2 of 2'' with the paragraph.
\<close>

theorem oversized_single_paragraph_chunks:
  "estimate_tokens_from_string (replicate 32000 CHR ''a'') = 8000
   \<and> MAX_CHUNK_SIZE = 6000
   \<and> split_blank_line (replicate 32000 CHR ''a'') = [replicate 32000 CHR ''a'']
   \<and> split_into_chunks (replicate 32000 CHR ''a'') = [[], replicate 32000 CHR ''a'']
   \<and> requests (text_tidy_up client (replicate 32000 CHR ''a''))
       = [chunk_request 1 2 [], chunk_request 2 2 (replicate 32000 CHR ''a'')]
   \<and> chunk_request 1 2 [] = get_cleanup_prompt [] @ [LF] @ ''This is part 1 of 2.''"
proof -
  have c: "split_into_chunks (replicate 32000 CHR ''a'') = [[], replicate 32000 CHR ''a'']"
    by (simp add: est_replicate MAX_CHUNK_SIZE_def split_into_chunks_def
        split_blank_line_no_LF build_chunks_def)
  have p: "MAX_CHUNK_SIZE
             < estimate_tokens_from_string (get_cleanup_prompt (replicate 32000 CHR ''a''))"
    by (simp add: est_prompt MAX_CHUNK_SIZE_def)
  show ?thesis
    using p
    by (simp add: requests_text_tidy_up c est_replicate MAX_CHUNK_SIZE_def
        split_blank_line_no_LF policy_request_def numeral_2_eq_2 chunk_request_def py_str.simps)
qed




section \<open>The cleanup pipeline\<close>

text \<open>
  C5. \<open>text_tidy_up\<close> takes the single-shot path, issuing the one request whose message is
  the cleanup prompt of the whole document, if and only if the estimate of that prompt is at
  most \<open>MAX_CHUNK_SIZE = 6000\<close>; otherwise its requests are the chunk requests, one for each
  chunk in order, each annotated with its part number. The witness is at the boundary: a
  document whose prompt is estimated at exactly 6000 is processed single-shot, and one whose
  prompt is estimated at 6001 is chunked.
\<close>

theorem path_decision_inclusive:
  "MAX_CHUNK_SIZE = 6000
   \<and> (requests (text_tidy_up client D) = [get_cleanup_prompt D])
      = (estimate_tokens_from_string (get_cleanup_prompt D) \<le> MAX_CHUNK_SIZE)
   \<and> (if estimate_tokens_from_string (get_cleanup_prompt D) \<le> MAX_CHUNK_SIZE
       then requests (text_tidy_up client D) = [get_cleanup_prompt D]
       else requests (text_tidy_up client D)
              = map (policy_request (length (split_into_chunks D)))
                  (enumerate 0 (split_into_chunks D)))"
  by (simp add: requests_text_tidy_up chunk_requests_not_single_shot MAX_CHUNK_SIZE_def)

theorem path_decision_inclusive_witness:
  "estimate_tokens_from_string (get_cleanup_prompt (replicate 23754 CHR ''a'')) = 6000
   \<and> requests (text_tidy_up (\<lambda>k msg. Inl ''timeout'') (replicate 23754 CHR ''a''))
       = [get_cleanup_prompt (replicate 23754 CHR ''a'')]
   \<and> estimate_tokens_from_string (get_cleanup_prompt (replicate 23758 CHR ''a'')) = 6001
   \<and> requests (text_tidy_up (\<lambda>k msg. Inl ''timeout'') (replicate 23758 CHR ''a''))
       = [chunk_request 1 1 (replicate 23758 CHR ''a'')]
   \<and> requests (text_tidy_up (\<lambda>k msg. Inl ''timeout'') (replicate 23758 CHR ''a''))
       \<noteq> [get_cleanup_prompt (replicate 23758 CHR ''a'')]"
proof -
  have c: "split_into_chunks (replicate 23758 CHR ''a'') = [replicate 23758 CHR ''a'']"
    by (simp add: est_replicate MAX_CHUNK_SIZE_def split_into_chunks_def
        split_blank_line_no_LF build_chunks_def)
  have a: "requests (text_tidy_up (\<lambda>k msg. Inl ''timeout'') (replicate 23754 CHR ''a''))
             = [get_cleanup_prompt (replicate 23754 CHR ''a'')]"
    using path_decision_inclusive [of "\<lambda>k msg. Inl ''timeout''" "replicate 23754 CHR ''a''"]
    by (simp add: est_prompt MAX_CHUNK_SIZE_def)
  have b: "requests (text_tidy_up (\<lambda>k msg. Inl ''timeout'') (replicate 23758 CHR ''a''))
             = [chunk_request 1 1 (replicate 23758 CHR ''a'')]
           \<and> requests (text_tidy_up (\<lambda>k msg. Inl ''timeout'') (replicate 23758 CHR ''a''))
             \<noteq> [get_cleanup_prompt (replicate 23758 CHR ''a'')]"
    using path_decision_inclusive [of "\<lambda>k msg. Inl ''timeout''" "replicate 23758 CHR ''a''"]
    by (simp add: est_prompt MAX_CHUNK_SIZE_def c policy_request_def
        chunk_request_not_cleanup_prompt)
  from a b show ?thesis by (simp add: est_prompt chunk_request_not_cleanup_prompt)
qed

text \<open>
  C7. The claim is that on the chunked path a chunk whose request failed is replaced by
  its original text and adds 0 to the actual-token total, so that with two chunks of which
  only the second fails the actual tokens are the usage of the first request. On the code
  this holds when the second request raises (first conjunct: usage 7). It fails when the
  second request returns a response that reports a usage of 14 and whose content cannot
  be read: the loop adds the usage before it reads the content, so the second chunk is
  replaced by its original text and its 14 tokens are counted all the same (second
  conjunct: 21 actual tokens, and 12000 estimated tokens for one cleaned chunk of 6000).
\<close>

theorem malformed_response_counts_actual_tokens:
  "split_into_chunks (replicate 24000 CHR ''a'' @ blank_line @ replicate 24000 CHR ''b'')
     = [replicate 24000 CHR ''a'', replicate 24000 CHR ''b'']
   \<and> returned
        (text_tidy_up
           (\<lambda>k msg. if k = 0 then Inr \<lparr>content = ContentStr ''clean'', usage = UsageTotal 7\<rparr>
                     else Inl ''timeout'')
           (replicate 24000 CHR ''a'' @ blank_line @ replicate 24000 CHR ''b''))
       = Inr \<lparr>final_content = ''clean'' @ blank_line @ replicate 24000 CHR ''b'',
              estimated_tokens = 6000, actual_tokens = 7\<rparr>
   \<and> returned
        (text_tidy_up
           (\<lambda>k msg. if k = 0 then Inr \<lparr>content = ContentStr ''clean'', usage = UsageTotal 7\<rparr>
                     else Inr \<lparr>content = ContentRaises ''list index out of range'',
                               usage = UsageTotal 14\<rparr>)
           (replicate 24000 CHR ''a'' @ blank_line @ replicate 24000 CHR ''b''))
       = Inr \<lparr>final_content = ''clean'' @ blank_line @ replicate 24000 CHR ''b'',
              estimated_tokens = 12000, actual_tokens = 21\<rparr>"
  using split_into_chunks_two_paragraphs
  by (simp add: text_tidy_up_def est_prompt MAX_CHUNK_SIZE_def process_chunks_def
      process_chunk_def usage_total_tokens_def message_content_def py_join_blank_line_def
      est_replicate Let_def)

text \<open>
  C8. The claim is that no failure of a request leaves \<open>text_tidy_up\<close>, which always
  returns a content and the token counters. On the single-shot path it does (lemmas
  \<open>single_shot_returns\<close> and \<open>single_shot_request_raises\<close>), also for a response whose
  content is \<open>None\<close>: \<open>len\<close> raises inside the \<open>try\<close> and the fallback message is returned
  (first conjunct). On the chunked path the same response makes the function raise: the
  \<open>None\<close> is appended to the processed chunks, and the join after the loop, outside every
  \<open>try\<close>, raises \<open>TypeError\<close> (second conjunct).
\<close>

theorem null_content_escapes_chunked_path:
  "returned
     (text_tidy_up (\<lambda>k msg. Inr \<lparr>content = ContentNone, usage = UsageTotal 7\<rparr>) ''# Report'')
     = Inr \<lparr>final_content = ''Error in tidy up: '' @ len_of_None @ blank_line
                            @ ''Raw document content:'' @ blank_line @ ''# Report'',
            estimated_tokens = 0, actual_tokens = 0\<rparr>
   \<and> MAX_CHUNK_SIZE
       < estimate_tokens_from_string
           (get_cleanup_prompt (replicate 24000 CHR ''a'' @ blank_line @ replicate 24000 CHR ''b''))
   \<and> returned
        (text_tidy_up (\<lambda>k msg. Inr \<lparr>content = ContentNone, usage = UsageTotal 7\<rparr>)
           (replicate 24000 CHR ''a'' @ blank_line @ replicate 24000 CHR ''b''))
       = Inl ''sequence item 0: expected str instance, NoneType found''"
  using split_into_chunks_two_paragraphs
  by (simp add: text_tidy_up_def est_prompt MAX_CHUNK_SIZE_def process_chunks_def
      process_chunk_def usage_total_tokens_def message_content_def py_join_blank_line_def
      try_except_def est_replicate Let_def py_str.simps)

text \<open>
  C10. The claim is that the estimated-token total counts successful requests only: 0 when
  the single-shot request fails, and on the chunked path the sum of the estimates of the
  chunks whose request succeeded. On the single-shot path it is 0 after any failure (first
  conjunct, for a response whose content cannot be read). On the chunked path the loop
  adds the estimate of the chunk before it reads the content of the response: with the
  same response for both of two chunks, each chunk is replaced by its original text, and
  the function returns the document as it was with 12000 estimated tokens, not 0 (second
  conjunct).
\<close>

theorem fallback_chunks_count_estimated_tokens:
  "returned
     (text_tidy_up
        (\<lambda>k msg. Inr \<lparr>content = ContentRaises ''list index out of range'',
                        usage = UsageTotal 7\<rparr>)
        ''# Report'')
     = Inr \<lparr>final_content = ''Error in tidy up: list index out of range'' @ blank_line
                            @ ''Raw document content:'' @ blank_line @ ''# Report'',
            estimated_tokens = 0, actual_tokens = 0\<rparr>
   \<and> returned
        (text_tidy_up
           (\<lambda>k msg. Inr \<lparr>content = ContentRaises ''list index out of range'',
                           usage = UsageTotal 7\<rparr>)
           (replicate 24000 CHR ''a'' @ blank_line @ replicate 24000 CHR ''b''))
       = Inr \<lparr>final_content = replicate 24000 CHR ''a'' @ blank_line @ replicate 24000 CHR ''b'',
              estimated_tokens = 12000, actual_tokens = 14\<rparr>"
  using split_into_chunks_two_paragraphs
  by (simp add: text_tidy_up_def est_prompt MAX_CHUNK_SIZE_def process_chunks_def
      process_chunk_def usage_total_tokens_def message_content_def py_join_blank_line_def
      try_except_def est_replicate Let_def)

end
